theory Spec2Isabelle
  imports Main "HOL-Library.Finite_Map"
begin

section \<open>Windowing of time series: gordo/machine/model/models.py\<close>

text \<open>
  Timestamps and time deltas are integers (a count of a fixed time unit). A pandas
  DataFrame is its list of rows, each with its index label; a numpy array is its list of
  rows. The row type is left open.
\<close>

datatype 'r table = DataFrame "(int \<times> 'r) list" | NdArray "'r list"

record TimeseriesChunk =
  start_ts :: "int option"
  end_ts :: "int option"
  size :: int

text \<open>
  The exceptions, as values. \<open>ValueErrorChunks\<close> is the \<open>ValueError\<close> whose message is
  formatted with a list of chunks. \<open>OutsideModel\<close> marks a call that the model does not
  cover.
\<close>

datatype error =
    ValueError string
  | ValueErrorChunks string "TimeseriesChunk list"
  | IndexError int
  | KeyError
  | TypeError
  | ZeroDivisionError
  | OutsideModel

definition is_ValueError :: "error \<Rightarrow> bool" where
  "is_ValueError e = (case e of ValueError _ \<Rightarrow> True | ValueErrorChunks _ _ \<Rightarrow> True | _ \<Rightarrow> False)"

subsection \<open>The library's window generator\<close>

text \<open>
  Python slicing \<open>xs[a:b]\<close> and indexing \<open>xs[i]\<close> on a sequence: negative positions
  count from the end, a slice is clipped to the sequence, an index out of range raises.
\<close>

definition py_clip :: "nat \<Rightarrow> int \<Rightarrow> nat" where
  "py_clip n a = (if a < 0 then nat (max (a + int n) 0) else min (nat a) n)"

definition py_slice :: "'a list \<Rightarrow> int \<Rightarrow> int \<Rightarrow> 'a list" where
  "py_slice xs a b =
     (let lo = py_clip (length xs) a; hi = py_clip (length xs) b
      in take (hi - lo) (drop lo xs))"

definition py_index :: "'a list \<Rightarrow> int \<Rightarrow> error + 'a" where
  "py_index xs i =
     (if 0 \<le> i \<and> i < int (length xs) then Inr (xs ! nat i)
      else if i < 0 \<and> - int (length xs) \<le> i then Inr (xs ! nat (int (length xs) + i))
      else Inl (IndexError i))"

text \<open>
  \<open>tensorflow.keras.preprocessing.sequence.TimeseriesGenerator\<close>, the class that
  models.py imports and instantiates per chunk (the window generator of the
  specification: an input and a target array, a window length and a batch size, a count
  of batches and retrieval by index). It is library code; the model below is its
  constructor, \<open>__len__\<close> and \<open>__getitem__\<close> for the keyword arguments models.py passes
  (\<open>length\<close>, \<open>batch_size\<close>, \<open>shuffle\<close>), the others at their defaults
  (\<open>sampling_rate = 1\<close>, \<open>stride = 1\<close>, \<open>start_index = 0\<close>, \<open>end_index = None\<close>,
  \<open>reverse = False\<close>).
\<close>

record 'r TimeseriesGenerator =
  tg_data :: "'r list"
  tg_targets :: "'r list"
  tg_length :: int
  tg_start_index :: int
  tg_end_index :: int
  tg_shuffle :: bool
  tg_batch_size :: int

definition TimeseriesGenerator_init ::
  "'r list \<Rightarrow> 'r list \<Rightarrow> int \<Rightarrow> int \<Rightarrow> bool \<Rightarrow> error + 'r TimeseriesGenerator" where
  "TimeseriesGenerator_init data targets len batch_size shuffle =
     (if length data \<noteq> length targets
      then Inl (ValueError ''Data and targets have to be of same length.'')
      else if len > int (length data) - 1
      then Inl (ValueError ''start_index+length > end_index is disallowed'')
      else Inr \<lparr> tg_data = data, tg_targets = targets, tg_length = len,
                 tg_start_index = len, tg_end_index = int (length data) - 1,
                 tg_shuffle = shuffle, tg_batch_size = batch_size \<rparr>)"

text \<open>
  \<open>len(generator)\<close>: the generator's \<open>__len__\<close> is
  \<open>(end_index - start_index + batch_size) // batch_size\<close>; the builtin \<open>len\<close> raises
  ValueError on a negative result.
\<close>

definition TimeseriesGenerator_len :: "'r TimeseriesGenerator \<Rightarrow> error + int" where
  "TimeseriesGenerator_len g =
     (if tg_batch_size g = 0 then Inl ZeroDivisionError
      else let n = (tg_end_index g - tg_start_index g + tg_batch_size g) div tg_batch_size g
           in if n < 0 then Inl (ValueError ''__len__() should return >= 0'') else Inr n)"

text \<open>The rows of batch \<open>index\<close> when \<open>shuffle\<close> is off: \<open>np.arange(i, min(i + batch_size, end_index + 1))\<close>.\<close>

definition batch_rows :: "'r TimeseriesGenerator \<Rightarrow> int \<Rightarrow> int list" where
  "batch_rows g index =
     (let i = tg_start_index g + tg_batch_size g * index
      in [i .. min (i + tg_batch_size g) (tg_end_index g + 1) - 1])"

text \<open>One sample: the window \<open>data[row - length : row]\<close> and its target \<open>targets[row]\<close>.\<close>

definition sample_at :: "'r TimeseriesGenerator \<Rightarrow> int \<Rightarrow> error + ('r list \<times> 'r)" where
  "sample_at g row =
     (case py_index (tg_targets g) row of
        Inl e \<Rightarrow> Inl e
      | Inr t \<Rightarrow> Inr (py_slice (tg_data g) (row - tg_length g) row, t))"

fun collect :: "(error + 'a) list \<Rightarrow> error + 'a list" where
  "collect [] = Inr []"
| "collect (Inl e # _) = Inl e"
| "collect (Inr x # xs) = (case collect xs of Inl e \<Rightarrow> Inl e | Inr ys \<Rightarrow> Inr (x # ys))"

text \<open>
  \<open>generator[index]\<close>. With \<open>shuffle\<close> on, the rows are drawn by
  \<open>np.random.randint(start_index, end_index + 1, size = batch_size)\<close>, here the
  parameter \<open>randint\<close>.
\<close>

definition TimeseriesGenerator_getitem ::
  "(int \<Rightarrow> int \<Rightarrow> int \<Rightarrow> int list) \<Rightarrow> 'r TimeseriesGenerator \<Rightarrow> int \<Rightarrow> error + ('r list \<times> 'r) list" where
  "TimeseriesGenerator_getitem randint g index =
     (let rows = (if tg_shuffle g
                  then randint (tg_start_index g) (tg_end_index g + 1) (tg_batch_size g)
                  else batch_rows g index)
      in collect (map (sample_at g) rows))"

subsection \<open>GordoTimeseriesGenerator\<close>

record 'g TimeseriesGeneratorContainer =
  generator :: 'g
  chunk :: TimeseriesChunk
  length_c :: int

record 'g GordoTimeseriesGenerator =
  step :: int
  consecutive_chunks :: "TimeseriesChunk list"
  failed_chunks :: "TimeseriesChunk list"
  generators_containers :: "'g TimeseriesGeneratorContainer list"
  lookahead :: int

text \<open>
  The loop of \<open>find_consecutive_chunks\<close> over \<open>enumerate(df.index)\<close>; the state is
  \<open>(chunks, prev_ts, start_ts, start_i)\<close>.
\<close>

fun find_consecutive_chunks_loop ::
  "int \<Rightarrow> (nat \<times> int) list \<Rightarrow> TimeseriesChunk list \<times> int option \<times> int option \<times> nat \<Rightarrow>
   TimeseriesChunk list \<times> int option \<times> int option \<times> nat" where
  "find_consecutive_chunks_loop stp [] st = st"
| "find_consecutive_chunks_loop stp ((i, dt) # rest) (chunks, prev_ts, start_ts', start_i) =
     (case prev_ts of
        None \<Rightarrow> find_consecutive_chunks_loop stp rest (chunks, Some dt, Some dt, start_i)
      | Some p \<Rightarrow>
          if dt - p = stp
          then find_consecutive_chunks_loop stp rest (chunks, Some dt, start_ts', start_i)
          else find_consecutive_chunks_loop stp rest
                 (chunks @ [\<lparr> start_ts = start_ts', end_ts = Some p, size = int i - int start_i \<rparr>],
                  None, None, i))"

definition find_consecutive_chunks :: "int \<Rightarrow> (int \<times> 'r) list \<Rightarrow> TimeseriesChunk list" where
  "find_consecutive_chunks stp df =
     (let idx = map fst df
      in case find_consecutive_chunks_loop stp (enumerate 0 idx) ([], None, None, 0) of
           (chunks, prev_ts, start_ts', start_i) \<Rightarrow>
             if start_ts' \<noteq> None
             then chunks @ [\<lparr> start_ts = start_ts', end_ts = prev_ts,
                              size = int (length idx) - int start_i \<rparr>]
             else chunks)"

text \<open>
  The label slice \<open>df[start_ts : end_ts]\<close> is pandas' and is a parameter \<open>loc\<close> of the
  model. \<open>loc_sorted\<close> is what pandas does on a monotonically increasing index: the rows
  whose label lies between the two bounds, both included.
\<close>

type_synonym 'r label_slice = "(int \<times> 'r) list \<Rightarrow> int option \<Rightarrow> int option \<Rightarrow> error + (int \<times> 'r) list"

definition loc_sorted :: "'r label_slice" where
  "loc_sorted df a b =
     Inr (filter (\<lambda>(ts, _). (case a of None \<Rightarrow> True | Some lo \<Rightarrow> lo \<le> ts) \<and>
                             (case b of None \<Rightarrow> True | Some hi \<Rightarrow> ts \<le> hi)) df)"

text \<open>
  The loop of \<open>create_generator_containers\<close>; the state is the local variable \<open>length\<close>,
  \<open>self.failed_chunks\<close> and \<open>generator_containers\<close>. Only a ValueError of the generator's
  constructor is caught; \<open>len(generator)\<close> is in the \<open>else\<close> clause.
\<close>

fun create_generator_containers_loop ::
  "'r label_slice \<Rightarrow> (int \<times> 'r) list \<Rightarrow> (int \<times> 'r) list \<Rightarrow> int \<Rightarrow> bool \<Rightarrow> TimeseriesChunk list \<Rightarrow>
   int \<times> TimeseriesChunk list \<times> 'r TimeseriesGenerator TimeseriesGeneratorContainer list \<Rightarrow>
   error + (TimeseriesChunk list \<times> 'r TimeseriesGenerator TimeseriesGeneratorContainer list)" where
  "create_generator_containers_loop loc data targets batch_size shuffle [] (len, failed, conts) =
     Inr (failed, conts)"
| "create_generator_containers_loop loc data targets batch_size shuffle (c # rest) (len, failed, conts) =
     (case loc data (start_ts c) (end_ts c) of
        Inl e \<Rightarrow> Inl e
      | Inr gen_data \<Rightarrow>
     (case loc targets (start_ts c) (end_ts c) of
        Inl e \<Rightarrow> Inl e
      | Inr gen_target \<Rightarrow>
     (case TimeseriesGenerator_init (map snd gen_data) (map snd gen_target) len batch_size shuffle of
        Inl e \<Rightarrow>
          if is_ValueError e
          then create_generator_containers_loop loc data targets batch_size shuffle rest
                 (len, failed @ [c], conts)
          else Inl e
      | Inr g \<Rightarrow>
          (case TimeseriesGenerator_len g of
             Inl e \<Rightarrow> Inl e
           | Inr n \<Rightarrow>
               create_generator_containers_loop loc data targets batch_size shuffle rest
                 (n, failed, conts @ [\<lparr> generator = g, chunk = c, length_c = n \<rparr>])))))"

definition create_generator_containers ::
  "'r label_slice \<Rightarrow> TimeseriesChunk list \<Rightarrow> (int \<times> 'r) list \<Rightarrow> (int \<times> 'r) list \<Rightarrow> int \<Rightarrow> int \<Rightarrow> bool \<Rightarrow>
   error + (TimeseriesChunk list \<times> 'r TimeseriesGenerator TimeseriesGeneratorContainer list)" where
  "create_generator_containers loc chunks data targets len batch_size shuffle =
     create_generator_containers_loop loc data targets batch_size shuffle chunks (len, [], [])"

text \<open>
  The constructor. \<open>step\<close> is a time delta or a string, which \<open>pd.to_timedelta\<close>
  converts. The two pandas operations the class uses are the parameter \<open>pd\<close>.
\<close>

datatype step_arg = StepStr string | Timedelta int

record 'r pandas =
  df_loc :: "'r label_slice"
  to_timedelta :: "string \<Rightarrow> error + int"

definition GordoTimeseriesGenerator_init ::
  "'r pandas \<Rightarrow> 'r table \<Rightarrow> 'r table \<Rightarrow> int \<Rightarrow> int \<Rightarrow> bool \<Rightarrow> step_arg \<Rightarrow> int \<Rightarrow>
   error + 'r TimeseriesGenerator GordoTimeseriesGenerator" where
  "GordoTimeseriesGenerator_init pd data targets len batch_size shuffle stp lookahd =
     (case data of
        NdArray _ \<Rightarrow> Inl (ValueError ''Data have to be instance of pandas.DataFrame'')
      | DataFrame d \<Rightarrow>
     (case targets of
        NdArray _ \<Rightarrow> Inl (ValueError ''Targets have to be instance of pandas.DataFrame'')
      | DataFrame t \<Rightarrow>
          if length d \<noteq> length t
          then Inl (ValueError ''Data and targets have to be of same length.'')
          else (case (case stp of StepStr s \<Rightarrow> to_timedelta pd s | Timedelta delta \<Rightarrow> Inr delta) of
                  Inl e \<Rightarrow> Inl e
                | Inr delta \<Rightarrow>
               let chunks = find_consecutive_chunks delta d
               in (case create_generator_containers (df_loc pd) chunks d t len batch_size shuffle of
                     Inl e \<Rightarrow> Inl e
                   | Inr (failed, conts) \<Rightarrow>
                       if conts = []
                       then Inl (ValueErrorChunks
                              ''Seems like the time series are too small or in random order.Failed chunks: ''
                              chunks)
                       else Inr \<lparr> step = delta, consecutive_chunks = chunks, failed_chunks = failed,
                                  generators_containers = conts, lookahead = lookahd \<rparr>))))"

definition filter_chunks ::
  "int list option \<Rightarrow> 'g GordoTimeseriesGenerator \<Rightarrow> error + 'g GordoTimeseriesGenerator" where
  "filter_chunks indexes g =
     (case indexes of
        None \<Rightarrow> Inr g
      | Some is \<Rightarrow>
          (case collect (map (py_index (generators_containers g)) is) of
             Inl e \<Rightarrow> Inl e
           | Inr cs \<Rightarrow> Inr (g \<lparr> generators_containers := cs \<rparr>)))"


text \<open>
  The scan of \<open>__getitem__\<close>, with the running variable \<open>i\<close>. What the selected
  container's generator returns at the local index is the parameter \<open>getitem\<close>.
\<close>

fun getitem_loop ::
  "('g \<Rightarrow> int \<Rightarrow> 'b) \<Rightarrow> int \<Rightarrow> int \<Rightarrow> 'g TimeseriesGeneratorContainer list \<Rightarrow> error + 'b" where
  "getitem_loop getitem index i [] = Inl (IndexError index)"
| "getitem_loop getitem index i (c # rest) =
     (let new_i = i + length_c c
      in if index \<le> new_i
         then (let gen_i = index - i - 1 in Inr (getitem (generator c) gen_i))
         else getitem_loop getitem index new_i rest)"

definition GordoTimeseriesGenerator_getitem ::
  "('g \<Rightarrow> int \<Rightarrow> 'b) \<Rightarrow> 'g GordoTimeseriesGenerator \<Rightarrow> int \<Rightarrow> error + 'b" where
  "GordoTimeseriesGenerator_getitem getitem g index =
     getitem_loop getitem index (-1) (generators_containers g)"


subsection \<open>Padding for the lookahead\<close>

text \<open>
  \<open>pad_sequences\<close> of the library, for the one-sequence list \<open>[s]\<close> that models.py
  passes, returning the padded sequence (the \<open>[0]\<close> of the result). It allocates
  \<open>maxlen\<close> rows of the pad value (\<open>zero\<close>), truncates the sequence to \<open>s[-maxlen:]\<close>
  or \<open>s[:maxlen]\<close>, converts it to \<open>dtype\<close> (\<open>astype\<close>), and assigns it to the first
  or the last \<open>len(trunc)\<close> rows. With \<open>maxlen = 0\<close> the slice \<open>s[-0:]\<close> is all of
  \<open>s\<close>, and the assignment into no rows fails unless it broadcasts a single row.
\<close>

datatype side = Pre | Post

definition pad_sequences ::
  "'a \<Rightarrow> ('b \<Rightarrow> 'a) \<Rightarrow> 'b list \<Rightarrow> side \<Rightarrow> side \<Rightarrow> int \<Rightarrow> error + 'a list" where
  "pad_sequences zero astype s padding truncating maxlen =
     (if maxlen < 0 then Inl (ValueError ''negative dimensions are not allowed'')
      else if s = [] then Inr (replicate (nat maxlen) zero)
      else
        let trunc = map astype
              (case truncating of
                 Pre \<Rightarrow> py_slice s (- maxlen) (int (length s))
               | Post \<Rightarrow> py_slice s 0 maxlen)
        in if length trunc \<le> nat maxlen
           then Inr (case padding of
                       Post \<Rightarrow> trunc @ replicate (nat maxlen - length trunc) zero
                     | Pre \<Rightarrow> replicate (nat maxlen - length trunc) zero @ trunc)
           else if length trunc = 1 then Inr (replicate (nat maxlen) zero)
           else Inl (ValueError ''could not broadcast input array''))"

definition pad_x_and_y ::
  "'a \<Rightarrow> ('a \<Rightarrow> 'a) \<Rightarrow> 'a list \<Rightarrow> 'a list \<Rightarrow> int \<Rightarrow> error + ('a list \<times> 'a list)" where
  "pad_x_and_y zero astype X y lookahd =
     (let new_length = int (length X) + 1 - lookahd
      in if lookahd = 1 then Inr (X, y)
         else if lookahd \<ge> 0 then
           (if lookahd = 0 then
              (case pad_sequences zero (\<lambda>x. x) X Post Pre new_length of
                 Inl e \<Rightarrow> Inl e
               | Inr X' \<Rightarrow>
              (case pad_sequences zero astype y Pre Pre new_length of
                 Inl e \<Rightarrow> Inl e
               | Inr y' \<Rightarrow> Inr (X', y')))
            else if lookahd > 1 then
              (case pad_sequences zero (\<lambda>x. x) X Post Post new_length of
                 Inl e \<Rightarrow> Inl e
               | Inr X' \<Rightarrow>
              (case pad_sequences zero astype y Pre Pre new_length of
                 Inl e \<Rightarrow> Inl e
               | Inr y' \<Rightarrow> Inr (X', y')))
            else Inr (X, y))
         else Inl (ValueError ''Value of lookahead can not be negative''))"

subsection \<open>Keyword arguments\<close>

text \<open>
  A configuration and the keyword arguments of a call are dictionaries from names to
  values. The values the generator classes take are tables, integers, booleans, strings
  and time deltas. A keyword or a kind of value that the model does not cover gives
  \<open>OutsideModel\<close>; a missing or an unexpected keyword is Python's \<open>TypeError\<close>.
\<close>

datatype 'r pyval = PTable "'r table" | PInt int | PBool bool | PStr string | PTimedelta int

type_synonym 'r kwargs = "(string, 'r pyval) fmap"

definition and_then :: "error + 'a \<Rightarrow> ('a \<Rightarrow> error + 'b) \<Rightarrow> error + 'b" where
  "and_then r f = (case r of Inl e \<Rightarrow> Inl e | Inr x \<Rightarrow> f x)"

definition kw_table :: "'r kwargs \<Rightarrow> string \<Rightarrow> error + 'r table" where
  "kw_table kw k =
     (case fmlookup kw k of None \<Rightarrow> Inl TypeError | Some (PTable t) \<Rightarrow> Inr t | Some _ \<Rightarrow> Inl OutsideModel)"

definition kw_int :: "'r kwargs \<Rightarrow> string \<Rightarrow> int option \<Rightarrow> error + int" where
  "kw_int kw k dflt =
     (case fmlookup kw k of
        None \<Rightarrow> (case dflt of None \<Rightarrow> Inl TypeError | Some d \<Rightarrow> Inr d)
      | Some (PInt n) \<Rightarrow> Inr n
      | Some _ \<Rightarrow> Inl OutsideModel)"

definition kw_bool :: "'r kwargs \<Rightarrow> string \<Rightarrow> bool \<Rightarrow> error + bool" where
  "kw_bool kw k dflt =
     (case fmlookup kw k of None \<Rightarrow> Inr dflt | Some (PBool b) \<Rightarrow> Inr b | Some _ \<Rightarrow> Inl OutsideModel)"

definition kw_step :: "'r kwargs \<Rightarrow> string \<Rightarrow> step_arg \<Rightarrow> error + step_arg" where
  "kw_step kw k dflt =
     (case fmlookup kw k of
        None \<Rightarrow> Inr dflt
      | Some (PStr s) \<Rightarrow> Inr (StepStr s)
      | Some (PTimedelta d) \<Rightarrow> Inr (Timedelta d)
      | Some _ \<Rightarrow> Inl OutsideModel)"

text \<open>
  The library generator called with keywords, as \<open>super().__init__(data=data,
  targets=targets, **kwargs)\<close> does.
\<close>

definition TimeseriesGenerator_call ::
  "'r list \<Rightarrow> 'r list \<Rightarrow> 'r kwargs \<Rightarrow> error + 'r TimeseriesGenerator" where
  "TimeseriesGenerator_call data targets kw =
     (if \<not> fmdom' kw \<subseteq> {''length'', ''sampling_rate'', ''stride'', ''start_index'', ''end_index'',
                            ''shuffle'', ''reverse'', ''batch_size''}
      then Inl TypeError
      else if \<not> fmdom' kw \<subseteq> {''length'', ''shuffle'', ''batch_size''} then Inl OutsideModel
      else and_then (kw_int kw ''length'' None) (\<lambda>len.
           and_then (kw_int kw ''batch_size'' (Some 128)) (\<lambda>batch_size.
           and_then (kw_bool kw ''shuffle'' False) (\<lambda>shuffle.
           TimeseriesGenerator_init data targets len batch_size shuffle))))"

subsection \<open>DefaultTimeseriesGenertor\<close>

definition table_values :: "'r table \<Rightarrow> 'r list" where
  "table_values t = (case t of DataFrame d \<Rightarrow> map snd d | NdArray a \<Rightarrow> a)"

definition DefaultTimeseriesGenertor_init ::
  "'r \<Rightarrow> ('r \<Rightarrow> 'r) \<Rightarrow> 'r table \<Rightarrow> 'r table \<Rightarrow> int \<Rightarrow> 'r kwargs \<Rightarrow> error + 'r TimeseriesGenerator" where
  "DefaultTimeseriesGenertor_init zero astype data targets lookahd kw =
     (case pad_x_and_y zero astype (table_values data) (table_values targets) lookahd of
        Inl e \<Rightarrow> Inl e
      | Inr (data', targets') \<Rightarrow> TimeseriesGenerator_call data' targets' kw)"

subsection \<open>TimeseriesGeneratorTypes\<close>

record ('v, 'g) TimeseriesGeneratorTypes =
  default_type :: "(string, 'v) fmap \<Rightarrow> error + 'g"
  reg_types :: "('v, (string, 'v) fmap \<Rightarrow> error + 'g) fmap"

definition create_from_config ::
  "('v, 'g) TimeseriesGeneratorTypes \<Rightarrow> (string, 'v) fmap option \<Rightarrow> (string, 'v) fmap \<Rightarrow> error + 'g" where
  "create_from_config self config kwargs =
     (case config of
        None \<Rightarrow> default_type self kwargs
      | Some cfg \<Rightarrow>
          (case fmlookup cfg ''type'' of
             None \<Rightarrow> Inl (ValueError ''Unspecified type attribute for timeseries_generator'')
           | Some type_name \<Rightarrow>
               (case fmlookup (reg_types self) type_name of
                  None \<Rightarrow> Inl (ValueError ''Unknown type for timeseries_generator'')
                | Some cls \<Rightarrow>
                    (let all_kwargs = fmdrop ''type'' cfg ++\<^sub>f kwargs
                     in cls all_kwargs))))"

text \<open>The two classes called with keywords, and the registry as it is after import.\<close>

datatype 'r generator_obj =
    DefaultGen "'r TimeseriesGenerator"
  | GordoGen "'r TimeseriesGenerator GordoTimeseriesGenerator"

definition DefaultTimeseriesGenertor_call ::
  "'r \<Rightarrow> ('r \<Rightarrow> 'r) \<Rightarrow> 'r kwargs \<Rightarrow> error + 'r generator_obj" where
  "DefaultTimeseriesGenertor_call zero astype kw =
     and_then (kw_table kw ''data'') (\<lambda>data.
     and_then (kw_table kw ''targets'') (\<lambda>targets.
     and_then (kw_int kw ''lookahead'' (Some 1)) (\<lambda>lookahd.
     and_then (DefaultTimeseriesGenertor_init zero astype data targets lookahd
                 (fmdrop ''data'' (fmdrop ''targets'' (fmdrop ''lookahead'' kw))))
       (\<lambda>g. Inr (DefaultGen g)))))"

definition GordoTimeseriesGenerator_call :: "'r pandas \<Rightarrow> 'r kwargs \<Rightarrow> error + 'r generator_obj" where
  "GordoTimeseriesGenerator_call pd kw =
     (if \<not> fmdom' kw \<subseteq> {''data'', ''targets'', ''length'', ''batch_size'', ''shuffle'', ''step'',
                            ''lookahead''}
      then Inl TypeError
      else and_then (kw_table kw ''data'') (\<lambda>data.
           and_then (kw_table kw ''targets'') (\<lambda>targets.
           and_then (kw_int kw ''length'' None) (\<lambda>len.
           and_then (kw_int kw ''batch_size'' (Some 128)) (\<lambda>batch_size.
           and_then (kw_bool kw ''shuffle'' False) (\<lambda>shuffle.
           and_then (kw_step kw ''step'' (StepStr ''10min'')) (\<lambda>stp.
           and_then (kw_int kw ''lookahead'' (Some 1)) (\<lambda>lookahd.
           and_then (GordoTimeseriesGenerator_init pd data targets len batch_size shuffle stp lookahd)
             (\<lambda>g. Inr (GordoGen g))))))))))"

definition timeseries_generators ::
  "'r \<Rightarrow> ('r \<Rightarrow> 'r) \<Rightarrow> 'r pandas \<Rightarrow> ('r pyval, 'r generator_obj) TimeseriesGeneratorTypes" where
  "timeseries_generators zero astype pd =
     \<lparr> default_type = DefaultTimeseriesGenertor_call zero astype,
       reg_types = fmap_of_list [(PStr ''GordoTimeseriesGenerator'', GordoTimeseriesGenerator_call pd)] \<rparr>"

definition create_keras_timeseriesgenerator ::
  "'r \<Rightarrow> ('r \<Rightarrow> 'r) \<Rightarrow> 'r pandas \<Rightarrow> 'r table \<Rightarrow> 'r table \<Rightarrow> int \<Rightarrow> int \<Rightarrow> int \<Rightarrow> 'r kwargs option \<Rightarrow>
   error + 'r generator_obj" where
  "create_keras_timeseriesgenerator zero astype pd X y batch_size lookback_window lookahd config =
     create_from_config (timeseries_generators zero astype pd) config
       (fmap_of_list [(''data'', PTable X), (''targets'', PTable y), (''length'', PInt lookback_window),
                      (''batch_size'', PInt batch_size), (''lookahead'', PInt lookahd)])"

definition generator_getitem ::
  "(int \<Rightarrow> int \<Rightarrow> int \<Rightarrow> int list) \<Rightarrow> 'r generator_obj \<Rightarrow> int \<Rightarrow> error + ('r list \<times> 'r) list" where
  "generator_getitem randint tsg index =
     (case tsg of
        DefaultGen g \<Rightarrow> TimeseriesGenerator_getitem randint g index
      | GordoGen g \<Rightarrow>
          (case GordoTimeseriesGenerator_getitem (TimeseriesGenerator_getitem randint) g index of
             Inl e \<Rightarrow> Inl e
           | Inr r \<Rightarrow> r))"

subsection \<open>KerasLSTMBaseEstimator\<close>

text \<open>
  A numpy array of one or two dimensions; the input of \<open>fit\<close> is such an array or a
  DataFrame of rows. \<open>lookahead\<close> is 1 in KerasLSTMForecast and 0 in
  KerasLSTMAutoEncoder.
\<close>

datatype 'a ndarray = Arr1 "'a list" | Arr2 "'a list list"

datatype 'a fit_input = InFrame "(int \<times> 'a list) list" | InArray "'a ndarray"

record 'a KerasLSTMBaseEstimator =
  est_lookback_window :: int
  est_batch_size :: int
  est_lookahead :: int
  est_timeseries_generator :: "'a list kwargs option"

definition validate_and_fix_size_of_X ::
  "'a KerasLSTMBaseEstimator \<Rightarrow> 'a ndarray \<Rightarrow> error + 'a list list" where
  "validate_and_fix_size_of_X self X =
     (let X' = (case X of Arr1 xs \<Rightarrow> map (\<lambda>x. [x]) xs | Arr2 rows \<Rightarrow> rows)
      in if est_lookback_window self \<ge> int (length X')
         then Inl (ValueError ''For KerasLSTMForecast lookback_window must be < size of X'')
         else Inr X')"

definition table_head :: "'r table \<Rightarrow> int \<Rightarrow> 'r table" where
  "table_head t n = (case t of DataFrame d \<Rightarrow> DataFrame (py_slice d 0 n) | NdArray a \<Rightarrow> NdArray (py_slice a 0 n))"

text \<open>
  \<open>fit\<close> up to \<open>primer_x, primer_y = tsg[0]\<close>. The batch it returns is what \<open>fit\<close>
  passes next to the fit of the base class, which builds the network.
\<close>

definition fit_primer ::
  "'a list \<Rightarrow> ('a list \<Rightarrow> 'a list) \<Rightarrow> 'a list pandas \<Rightarrow> (int \<Rightarrow> int \<Rightarrow> int \<Rightarrow> int list) \<Rightarrow>
   'a KerasLSTMBaseEstimator \<Rightarrow> 'a fit_input \<Rightarrow> 'a list table \<Rightarrow> error + ('a list list \<times> 'a list) list" where
  "fit_primer zero astype pd randint self X y =
     and_then (case X of
                 InArray a \<Rightarrow> and_then (validate_and_fix_size_of_X self a) (\<lambda>rows. Inr (NdArray rows))
               | InFrame df \<Rightarrow> Inr (DataFrame df)) (\<lambda>X'.
     and_then (create_keras_timeseriesgenerator zero astype pd
                 (table_head X' (est_lookahead self + est_lookback_window self))
                 (table_head y (est_lookahead self + est_lookback_window self))
                 1 (est_lookback_window self) (est_lookahead self) (est_timeseries_generator self)) (\<lambda>tsg.
     generator_getitem randint tsg 0))"


text \<open>The cumulative window count of the first \<open>k\<close> containers.\<close>

definition offset :: "'g TimeseriesGeneratorContainer list \<Rightarrow> nat \<Rightarrow> int" where
  "offset cs k = sum_list (map length_c (take k cs))"

definition table_len :: "'r table \<Rightarrow> nat" where
  "table_len t = (case t of DataFrame d \<Rightarrow> length d | NdArray a \<Rightarrow> length a)"

text \<open>
  The sample the lookahead claim describes for the row \<open>r\<close> the generator is at: the
  window is the \<open>L\<close> rows of the original input ending at position \<open>r - 1\<close>, and the
  target is the row of the original target at position \<open>r - 1 + k\<close>, converted by
  \<open>cast\<close>.
\<close>

definition aligned_sample :: "'a list \<Rightarrow> 'a list \<Rightarrow> ('a \<Rightarrow> 'a) \<Rightarrow> int \<Rightarrow> int \<Rightarrow> int \<Rightarrow> 'a list \<times> 'a" where
  "aligned_sample X y cast k L r =
     (map ((!) X) [nat (r - L) ..< nat r], cast (y ! nat (r - 1 + k)))"

subsection \<open>Example inputs\<close>

text \<open>Nine rows at step 10 with one gap after 40; each row holds its own timestamp.\<close>

definition gapped_frame :: "(int \<times> int) list" where
  "gapped_frame = map (\<lambda>t. (t, t)) [0, 10, 20, 30, 40, 100, 110, 120, 130]"

definition gapped_chunks :: "TimeseriesChunk list" where
  "gapped_chunks =
     [\<lparr>start_ts = Some 0, end_ts = Some 40, size = 5\<rparr>,
      \<lparr>start_ts = Some 110, end_ts = Some 130, size = 4\<rparr>]"

definition gapped_generator :: "int TimeseriesGenerator GordoTimeseriesGenerator" where
  "gapped_generator =
     \<lparr>step = 10, consecutive_chunks = gapped_chunks, failed_chunks = [],
      generators_containers =
        [\<lparr>generator =
            \<lparr>tg_data = [0, 10, 20, 30, 40], tg_targets = [0, 10, 20, 30, 40], tg_length = 2,
             tg_start_index = 2, tg_end_index = 4, tg_shuffle = False, tg_batch_size = 2\<rparr>,
          chunk = \<lparr>start_ts = Some 0, end_ts = Some 40, size = 5\<rparr>, length_c = 2\<rparr>,
         \<lparr>generator =
            \<lparr>tg_data = [110, 120, 130], tg_targets = [110, 120, 130], tg_length = 2,
             tg_start_index = 2, tg_end_index = 2, tg_shuffle = False, tg_batch_size = 2\<rparr>,
          chunk = \<lparr>start_ts = Some 110, end_ts = Some 130, size = 4\<rparr>, length_c = 1\<rparr>],
      lookahead = 1\<rparr>"

text \<open>
  pandas on frames whose index increases: the label slice by range, and the one step
  string the class uses as its default, with the second as time unit.
\<close>

definition pandas_sorted :: "'r pandas" where
  "pandas_sorted =
     \<lparr> df_loc = loc_sorted,
       to_timedelta = (\<lambda>s. if s = ''10min'' then Inr 600 else Inl (ValueError ''invalid time delta'')) \<rparr>"

definition no_random :: "int \<Rightarrow> int \<Rightarrow> int \<Rightarrow> int list" where
  "no_random lo hi n = []"


text \<open>Keyword arguments, a configuration and an estimator for the examples.\<close>

definition window_kwargs :: "int kwargs" where
  "window_kwargs = fmap_of_list [(''length'', PInt 2), (''batch_size'', PInt 10)]"

definition ahead3_generator :: "int TimeseriesGenerator" where
  "ahead3_generator =
     \<lparr>tg_data = [1, 2, 3], tg_targets = [13, 14, 15], tg_length = 2, tg_start_index = 2,
      tg_end_index = 2, tg_shuffle = False, tg_batch_size = 10\<rparr>"

definition gordo_config :: "int kwargs" where
  "gordo_config =
     fmap_of_list [(''type'', PStr ''GordoTimeseriesGenerator''), (''step'', PTimedelta 10),
                   (''batch_size'', PInt 7)]"

definition shared_kwargs :: "int kwargs" where
  "shared_kwargs =
     fmap_of_list [(''data'', PTable (DataFrame gapped_frame)), (''targets'', PTable (DataFrame gapped_frame)),
                   (''length'', PInt 2), (''batch_size'', PInt 2), (''lookahead'', PInt 1)]"

definition autoencoder :: "int KerasLSTMBaseEstimator" where
  "autoencoder =
     \<lparr> est_lookback_window = 2, est_batch_size = 32, est_lookahead = 0,
       est_timeseries_generator = None \<rparr>"


section \<open>Properties\<close>

subsection \<open>The library generator\<close>

lemma py_slice_window:
  assumes "0 \<le> a" "a \<le> b" "b \<le> int (length xs)"
  shows "py_slice xs a b = map ((!) xs) [nat a ..< nat b]"
proof -
  have "nat b \<le> length xs" "nat a \<le> nat b"
    using assms by linarith+
  then have "py_slice xs a b = take (nat b - nat a) (drop (nat a) xs)"
    using assms by (simp add: py_slice_def py_clip_def Let_def min_def)
  also have "\<dots> = map ((!) xs) [nat a ..< nat b]"
    using assms by (auto simp: list_eq_iff_nth_eq)
  finally show ?thesis .
qed

lemma py_slice_prefix: "0 \<le> m \<Longrightarrow> py_slice xs 0 m = take (nat m) xs"
  by (simp add: py_slice_def py_clip_def Let_def min_def)

lemma py_slice_suffix:
  "a < 0 \<Longrightarrow> py_slice xs a (int (length xs)) = drop (nat (a + int (length xs))) xs"
  by (simp add: py_slice_def py_clip_def Let_def max_def)

lemma py_index_in: "0 \<le> r \<Longrightarrow> r < int (length xs) \<Longrightarrow> py_index xs r = Inr (xs ! nat r)"
  by (simp add: py_index_def)

lemma TimeseriesGenerator_init_fields:
  "TimeseriesGenerator_init D T L bs sh = Inr g \<Longrightarrow>
     tg_data g = D \<and> tg_targets g = T \<and> tg_length g = L \<and> tg_start_index g = L \<and>
     tg_end_index g = int (length D) - 1 \<and> length D = length T \<and> L \<le> int (length D) - 1 \<and>
     tg_shuffle g = sh \<and> tg_batch_size g = bs"
  by (auto simp: TimeseriesGenerator_init_def split: if_splits)

lemma TimeseriesGenerator_call_init:
  "TimeseriesGenerator_call D T kw = Inr g \<Longrightarrow>
     \<exists>L bs sh. TimeseriesGenerator_init D T L bs sh = Inr g"
  by (auto simp: TimeseriesGenerator_call_def and_then_def split: if_splits sum.splits)

lemma collect_map_Inr:
  "(\<And>r. r \<in> set rs \<Longrightarrow> f r = Inr (h r)) \<Longrightarrow> collect (map f rs) = Inr (map h rs)"
  by (induction rs) simp_all

lemma batch_rows_in_range:
  assumes n: "TimeseriesGenerator_len g = Inr n" and i: "0 \<le> index" "index < n"
    and r: "r \<in> set (batch_rows g index)"
  shows "tg_start_index g \<le> r \<and> r \<le> tg_end_index g"
proof -
  let ?i = "tg_start_index g + tg_batch_size g * index"
  from r have r1: "?i \<le> r" and r2: "r \<le> ?i + tg_batch_size g - 1" and r3: "r \<le> tg_end_index g"
    by (auto simp: batch_rows_def Let_def)
  from r1 r2 have "0 < tg_batch_size g" by linarith
  with i(1) have "0 \<le> tg_batch_size g * index" by simp
  with r1 r3 show ?thesis by linarith
qed

lemma TimeseriesGenerator_len_nonneg: "TimeseriesGenerator_len g = Inr n \<Longrightarrow> 0 \<le> n"
  by (auto simp: TimeseriesGenerator_len_def Let_def split: if_splits)


subsection \<open>The scan of the global index\<close>

lemma offset_0: "offset cs 0 = 0"
  by (simp add: offset_def)


lemma offset_all: "length cs \<le> k \<Longrightarrow> offset cs k = sum_list (map length_c cs)"
  by (simp add: offset_def)





lemma getitem_loop_negative:
  assumes "0 \<le> length_c c" and "index < 0"
  shows "getitem_loop gi index (-1) (c # cs) = Inr (gi (generator c) index)"
  using assms by (simp add: Let_def)

lemma containers_loop_nonneg:
  assumes "create_generator_containers_loop loc data targets bs sh chunks (len, failed, conts) = Inr (failed', conts')"
    and "\<forall>c\<in>set conts. 0 \<le> length_c c"
  shows "\<forall>c\<in>set conts'. 0 \<le> length_c c"
  using assms
proof (induction chunks arbitrary: len failed conts)
  case Nil
  then show ?case by simp
next
  case (Cons c chunks)
  from Cons.prems(1) show ?case
  proof (simp split: sum.splits if_splits)
    assume "create_generator_containers_loop loc data targets bs sh chunks (len, failed @ [c], conts) = Inr (failed', conts')"
    then show ?thesis using Cons.prems(2) by (rule Cons.IH)
  next
    fix g n
    assume n: "TimeseriesGenerator_len g = Inr n"
      and r: "create_generator_containers_loop loc data targets bs sh chunks
          (n, failed, conts @ [\<lparr>generator = g, chunk = c, length_c = n\<rparr>]) = Inr (failed', conts')"
    have "\<forall>c\<in>set (conts @ [\<lparr>generator = g, chunk = c, length_c = n\<rparr>]). 0 \<le> length_c c"
      using Cons.prems(2) TimeseriesGenerator_len_nonneg [OF n] by auto
    with r show ?thesis by (rule Cons.IH)
  qed
qed


lemma init_containers:
  assumes "GordoTimeseriesGenerator_init pd data targets len bs sh stp la = Inr g"
  shows "generators_containers g \<noteq> [] \<and> (\<forall>c\<in>set (generators_containers g). 0 \<le> length_c c)"
proof -
  from assms obtain d t failed where
    r: "create_generator_containers_loop (df_loc pd) d t bs sh (find_consecutive_chunks (step g) d) (len, [], []) =
          Inr (failed, generators_containers g)"
    and ne: "generators_containers g \<noteq> []"
    by (auto simp: GordoTimeseriesGenerator_init_def create_generator_containers_def Let_def
        split: table.splits if_splits sum.splits)
  from containers_loop_nonneg [OF r] ne show ?thesis by simp
qed







lemma negative_full_call:
  assumes "GordoTimeseriesGenerator_init pd data targets len bs sh stp la = Inr g" and "n < 0"
  shows "generator_getitem randint (GordoGen g) n =
           TimeseriesGenerator_getitem randint (generator (hd (generators_containers g))) n"
proof -
  from init_containers [OF assms(1)] obtain c cs where cs: "generators_containers g = c # cs"
    and "0 \<le> length_c c"
    by (cases "generators_containers g") auto
  with assms(2) show ?thesis
    by (simp add: generator_getitem_def GordoTimeseriesGenerator_getitem_def Let_def)
qed

lemmas eval_defs = GordoTimeseriesGenerator_init_def gapped_frame_def find_consecutive_chunks_def
  is_ValueError_def
  create_generator_containers_def pandas_sorted_def loc_sorted_def TimeseriesGenerator_init_def
  TimeseriesGenerator_len_def enumerate_eq_zip

lemmas getitem_defs = GordoTimeseriesGenerator_getitem_def TimeseriesGenerator_getitem_def
  batch_rows_def sample_at_def py_index_def py_slice_def py_clip_def upto.simps

lemma gapped_init:
  "GordoTimeseriesGenerator_init pandas_sorted (DataFrame gapped_frame) (DataFrame gapped_frame) 2 2 False (Timedelta 10) 1 =
   Inr gapped_generator"
  by (simp add: eval_defs gapped_generator_def gapped_chunks_def)






text \<open>
  C10, as amended. For every generator \<open>g\<close> the constructor returns and every negative
  index \<open>n\<close>, the scan of \<open>__getitem__\<close> does not raise its \<open>IndexError\<close>: it selects
  the first container and delegates to that container's generator at the negative local
  index \<open>n\<close>, so that \<open>g[n]\<close> is whatever that generator gives at \<open>n\<close>, a batch or the
  generator's own error.
\<close>

theorem negative_index_delegates:
  assumes "GordoTimeseriesGenerator_init pd data targets len bs sh stp la = Inr g" and "n < 0"
  shows "GordoTimeseriesGenerator_getitem gi g n = Inr (gi (generator (hd (generators_containers g))) n) \<and>
         generator_getitem randint (GordoGen g) n =
           TimeseriesGenerator_getitem randint (generator (hd (generators_containers g))) n"
proof
  from init_containers [OF assms(1)] obtain c cs where cs: "generators_containers g = c # cs"
    and "0 \<le> length_c c"
    by (cases "generators_containers g") auto
  with assms(2)
  show "GordoTimeseriesGenerator_getitem gi g n = Inr (gi (generator (hd (generators_containers g))) n)"
    by (simp add: GordoTimeseriesGenerator_getitem_def Let_def)
next
  from assms show "generator_getitem randint (GordoGen g) n =
           TimeseriesGenerator_getitem randint (generator (hd (generators_containers g))) n"
    by (rule negative_full_call)
qed

theorem negative_index_delegates_witness:
  "GordoTimeseriesGenerator_init pandas_sorted (DataFrame gapped_frame) (DataFrame gapped_frame) 2 2 False (Timedelta 10) 1 =
     Inr gapped_generator \<and> (- 1 :: int) < 0 \<and>
   GordoTimeseriesGenerator_getitem (TimeseriesGenerator_getitem no_random) gapped_generator (- 1) =
     Inr (Inr [([], 0), ([], 10)]) \<and>
   generator_getitem no_random (GordoGen gapped_generator) (- 1) = Inr [([], 0), ([], 10)]"
proof -
  have neg: "(- 1 :: int) < 0" by simp
  have first: "TimeseriesGenerator_getitem no_random
      (generator (hd (generators_containers gapped_generator))) (- 1) = Inr [([], 0), ([], 10)]"
    by (simp add: getitem_defs gapped_generator_def)
  note th = negative_index_delegates [where gi = "TimeseriesGenerator_getitem no_random"
      and randint = no_random, OF gapped_init neg]
  from th have scan: "GordoTimeseriesGenerator_getitem (TimeseriesGenerator_getitem no_random)
      gapped_generator (- 1) = Inr (Inr [([], 0), ([], 10)])"
    by (simp only: first)
  from th have full: "generator_getitem no_random (GordoGen gapped_generator) (- 1) =
      Inr [([], 0), ([], 10)]"
    by (simp only: first)
  show ?thesis
    by (intro conjI) (rule gapped_init neg scan full)+
qed

text \<open>
  C10 as stated fails: on the same generator, whose first chunk has 5 rows, \<open>g[-4]\<close> is
  delegated to the first container, reaches the row -6 and raises \<open>IndexError\<close>.
\<close>

theorem negative_index_raises:
  "GordoTimeseriesGenerator_init pandas_sorted (DataFrame gapped_frame) (DataFrame gapped_frame) 2 2 False (Timedelta 10) 1 =
     Inr gapped_generator \<and> (- 4 :: int) < 0 \<and>
   generator_getitem no_random (GordoGen gapped_generator) (- 4) = Inl (IndexError (- 6))"
  by (simp add: gapped_init)
     (simp add: gapped_generator_def generator_getitem_def getitem_defs)

subsection \<open>The per-chunk generators\<close>

text \<open>
  C1. The claim: every per-chunk generator is built with the window length given to the
  constructor. The code at the frame with one gap, window length 2 and batch size 128:
  the first chunk's generator has length 2, the second chunk's has length 1, the number
  of batches of the first (the loop assigns \<open>length = len(generator)\<close>).
\<close>

theorem window_length_overwritten:
  "(case GordoTimeseriesGenerator_init pandas_sorted (DataFrame gapped_frame) (DataFrame gapped_frame)
           2 128 False (Timedelta 10) 1 of
      Inl e \<Rightarrow> []
    | Inr g \<Rightarrow> map (\<lambda>c. tg_length (generator c)) (generators_containers g)) = [2, 1]"
  by (simp add: eval_defs)

text \<open>
  C6. The claim: a chunk with too few rows for one window of the requested length is
  recorded as failed and contributes no windows. The code at the frame with one gap,
  window length 4 and batch size 128: the second chunk has 3 rows, its generator is built
  all the same (with length 1), it is not in \<open>failed_chunks\<close> and it contributes one
  batch. Each entry below is a container's chunk, its number of rows, the window length
  of its generator and its window count.
\<close>

theorem short_chunk_not_failed:
  "(case GordoTimeseriesGenerator_init pandas_sorted (DataFrame gapped_frame) (DataFrame gapped_frame)
           4 128 False (Timedelta 10) 1 of
      Inl e \<Rightarrow> None
    | Inr g \<Rightarrow> Some (failed_chunks g,
        map (\<lambda>c. (chunk c, length (tg_data (generator c)), tg_length (generator c), length_c c))
          (generators_containers g))) =
   Some ([], [(\<lparr>start_ts = Some 0, end_ts = Some 40, size = 5\<rparr>, 5, 4, 1),
              (\<lparr>start_ts = Some 110, end_ts = Some 130, size = 4\<rparr>, 3, 1, 1)])"
  by (simp add: eval_defs)

text \<open>
  The second half of C6 on its own: when the loop ends with no container, every chunk
  is in the failed list and the constructor raises the error that lists them.
\<close>

lemma containers_loop_keeps:
  assumes "create_generator_containers_loop loc data targets bs sh chunks (len, failed, conts) = Inr (failed', conts')"
  shows "conts \<noteq> [] \<Longrightarrow> conts' \<noteq> []"
  using assms
proof (induction chunks arbitrary: len failed conts)
  case Nil
  then show ?case by simp
next
  case (Cons c chunks)
  from Cons.prems(2) show ?case
  proof (simp split: sum.splits if_splits)
    assume "create_generator_containers_loop loc data targets bs sh chunks (len, failed @ [c], conts) = Inr (failed', conts')"
    with Cons.prems(1) show ?thesis by (rule Cons.IH)
  next
    fix g n
    assume "create_generator_containers_loop loc data targets bs sh chunks
          (n, failed, conts @ [\<lparr>generator = g, chunk = c, length_c = n\<rparr>]) = Inr (failed', conts')"
    then show ?thesis by (rule Cons.IH [rotated]) simp
  qed
qed

lemma containers_loop_all_failed:
  assumes "create_generator_containers_loop loc data targets bs sh chunks (len, failed, []) = Inr (failed', [])"
  shows "failed' = failed @ chunks"
  using assms
proof (induction chunks arbitrary: failed)
  case Nil
  then show ?case by simp
next
  case (Cons c chunks)
  from Cons.prems show ?case
  proof (simp split: sum.splits if_splits)
    assume "create_generator_containers_loop loc data targets bs sh chunks (len, failed @ [c], []) = Inr (failed', [])"
    from Cons.IH [OF this] show "failed' = failed @ c # chunks" by simp
  next
    fix g n
    assume "create_generator_containers_loop loc data targets bs sh chunks
          (n, failed, [\<lparr>generator = g, chunk = c, length_c = n\<rparr>]) = Inr (failed', [])"
    from containers_loop_keeps [OF this] show "failed' = failed @ c # chunks" by simp
  qed
qed

lemma no_generator_raises:
  assumes "create_generator_containers (df_loc pd) (find_consecutive_chunks delta d) d t len bs sh = Inr (failed, [])"
    and "length d = length t"
  shows "failed = find_consecutive_chunks delta d \<and>
         GordoTimeseriesGenerator_init pd (DataFrame d) (DataFrame t) len bs sh (Timedelta delta) la =
           Inl (ValueErrorChunks
                  ''Seems like the time series are too small or in random order.Failed chunks: ''
                  failed)"
proof -
  from assms(1) have "failed = find_consecutive_chunks delta d"
    using containers_loop_all_failed [of "df_loc pd" d t bs sh "find_consecutive_chunks delta d" len "[]" failed]
    by (simp add: create_generator_containers_def)
  with assms show ?thesis
    by (simp add: GordoTimeseriesGenerator_init_def Let_def)
qed


subsection \<open>Chunk discovery\<close>

text \<open>
  C2. The claim: at a gap the current chunk is closed and a new one starts at the current
  timestamp, so every row is in exactly one chunk and a chunk's size is the number of
  rows between its start and its end. The code at the index 0, 10, 30, 40 with step 10:
  the row at 30 is in no chunk, and the second chunk runs from 40 to 40 with size 2.
\<close>

theorem gap_row_in_no_chunk:
  "find_consecutive_chunks 10 [(0, 0), (10, 1), (30, 2), (40, 3 :: int)] =
     [\<lparr>start_ts = Some 0, end_ts = Some 10, size = 2\<rparr>,
      \<lparr>start_ts = Some 40, end_ts = Some 40, size = 2\<rparr>]"
  by (simp add: find_consecutive_chunks_def enumerate_eq_zip)

subsection \<open>Validation of the two tables\<close>

text \<open>
  C5, as amended. Data and targets of different lengths are rejected by the constructor
  with a \<open>ValueError\<close>, whatever the tables are. The time indexes are not compared.
\<close>

theorem different_lengths_rejected:
  assumes "table_len data \<noteq> table_len targets"
  shows "\<exists>m. GordoTimeseriesGenerator_init pd data targets len bs sh stp la = Inl (ValueError m)"
  using assms by (simp add: GordoTimeseriesGenerator_init_def table_len_def split: table.splits)

theorem different_lengths_rejected_witness:
  "table_len (DataFrame [(0, 1), (10, 2 :: int)]) \<noteq> table_len (DataFrame [(0, 1 :: int)]) \<and>
   GordoTimeseriesGenerator_init pandas_sorted (DataFrame [(0, 1), (10, 2 :: int)]) (DataFrame [(0, 1)])
     1 1 False (Timedelta 10) 1 = Inl (ValueError ''Data and targets have to be of same length.'')"
proof -
  have h: "table_len (DataFrame [(0, 1), (10, 2 :: int)]) \<noteq> table_len (DataFrame [(0, 1 :: int)])"
    by (simp add: table_len_def)
  from different_lengths_rejected [OF h, of pandas_sorted 1 1 False "Timedelta 10" 1] h show ?thesis
    by (simp add: GordoTimeseriesGenerator_init_def)
qed

text \<open>
  C5 as stated fails: two frames of four rows whose indexes differ (10 against 5) are
  accepted, and the rows are paired by position.
\<close>

theorem different_index_accepted:
  "GordoTimeseriesGenerator_init pandas_sorted
     (DataFrame [(0, 1), (10, 2), (20, 3), (30, 4 :: int)])
     (DataFrame [(0, 5), (5, 6), (20, 7), (30, 8)]) 1 1 False (Timedelta 10) 1 =
   Inr \<lparr>step = 10,
        consecutive_chunks = [\<lparr>start_ts = Some 0, end_ts = Some 30, size = 4\<rparr>],
        failed_chunks = [],
        generators_containers =
          [\<lparr>generator =
              \<lparr>tg_data = [1, 2, 3, 4], tg_targets = [5, 6, 7, 8],
                 tg_length = 1, tg_start_index = 1, tg_end_index = 3,
                 tg_shuffle = False, tg_batch_size = 1\<rparr>,
              chunk = \<lparr>start_ts = Some 0, end_ts = Some 30, size = 4\<rparr>,
              length_c = 3\<rparr>],
        lookahead = 1\<rparr>"
  by (simp add: eval_defs)


subsection \<open>Alignment of the lookahead\<close>

lemma pad_sequences_length:
  "pad_sequences z f s p t m = Inr r \<Longrightarrow> 0 \<le> m \<and> length r = nat m"
  by (auto simp: pad_sequences_def Let_def split: if_splits side.splits)

lemma pad_post_longer:
  "pad_sequences z f s Post Pre (int (length s) + 1) = Inr (map f s @ [z])"
  by (cases "s = []") (simp_all add: pad_sequences_def py_slice_suffix Let_def nat_add_distrib)

lemma pad_pre_longer:
  "pad_sequences z f s Pre Pre (int (length s) + 1) = Inr (z # map f s)"
  by (cases "s = []") (simp_all add: pad_sequences_def py_slice_suffix Let_def nat_add_distrib)

lemma pad_post_shorter:
  "1 \<le> m \<Longrightarrow> m \<le> int (length s) \<Longrightarrow> pad_sequences z f s Post Post m = Inr (map f (take (nat m) s))"
  by (auto simp: pad_sequences_def py_slice_prefix Let_def)

lemma pad_pre_shorter:
  "1 \<le> m \<Longrightarrow> m \<le> int (length s) \<Longrightarrow>
   pad_sequences z f s Pre Pre m = Inr (map f (drop (nat (int (length s) - m)) s))"
  by (auto simp: pad_sequences_def py_slice_suffix Let_def)


lemma pad_x_and_y_alignment:
  assumes pad: "pad_x_and_y z c X y k = Inr (D, T)"
    and len: "length X = length y"
    and big: "2 \<le> length D"
  shows "length T = length D"
    and "\<And>i. i + 1 < length D \<Longrightarrow> i < length X \<and> D ! i = X ! i"
    and "\<And>r. 1 \<le> r \<Longrightarrow> r < length D \<Longrightarrow>
           nat (int r - 1 + k) < length y \<and>
           T ! r = (if k = 1 then y ! nat (int r - 1 + k) else c (y ! nat (int r - 1 + k)))"
proof -
  consider "k = 1" | "k = 0" | "1 < k" | "k < 0" by linarith
  then have "length T = length D \<and>
     (\<forall>i. i + 1 < length D \<longrightarrow> i < length X \<and> D ! i = X ! i) \<and>
     (\<forall>r. 1 \<le> r \<and> r < length D \<longrightarrow>
           nat (int r - 1 + k) < length y \<and>
           T ! r = (if k = 1 then y ! nat (int r - 1 + k) else c (y ! nat (int r - 1 + k))))"
  proof cases
    case 1
    with pad have "D = X" "T = y" by (simp_all add: pad_x_and_y_def)
    with 1 len show ?thesis by (simp add: nat_diff_distrib')
  next
    case 2
    have "pad_x_and_y z c X y 0 = Inr (X @ [z], z # map c y)"
      using pad_post_longer [of z "\<lambda>x. x" X] pad_pre_longer [of z c y] len
      by (simp add: pad_x_and_y_def)
    with pad 2 have D: "D = X @ [z]" and T: "T = z # map c y" by simp_all
    show ?thesis
    proof (intro conjI allI impI)
      show "length T = length D" using D T len by simp
    next
      fix i assume "i + 1 < length D"
      then show "i < length X" using D by simp
    next
      fix i assume "i + 1 < length D"
      then show "D ! i = X ! i" using D by (simp add: nth_append)
    next
      fix r assume "1 \<le> r \<and> r < length D"
      then show "nat (int r - 1 + k) < length y" using D len 2 by auto
    next
      fix r assume r: "1 \<le> r \<and> r < length D"
      then obtain r' where r': "r = Suc r'" by (cases r) auto
      with r D len have "r' < length y" by simp
      with r' 2 T show "T ! r = (if k = 1 then y ! nat (int r - 1 + k) else c (y ! nat (int r - 1 + k)))"
        by simp
    qed
  next
    case 3
    define m where "m = int (length X) + 1 - k"
    from pad 3 obtain X' y' where
      X': "pad_sequences z (\<lambda>x. x) X Post Post m = Inr X'"
      and y': "pad_sequences z c y Pre Pre m = Inr y'"
      and DT: "D = X'" "T = y'"
      by (auto simp: pad_x_and_y_def Let_def m_def split: sum.splits if_splits)
    from pad_sequences_length [OF X'] DT big have m2: "2 \<le> m" by simp
    with 3 have m_le: "m \<le> int (length X)" by (simp add: m_def)
    from pad_post_shorter [of m X z "\<lambda>x. x"] m2 m_le X' DT
    have D: "D = take (nat m) X" by simp
    from pad_pre_shorter [of m y z c] m2 m_le len y' DT
    have T: "T = map c (drop (nat (int (length y) - m)) y)" by simp
    have off: "nat (int (length y) - m) = nat (k - 1)"
      using len by (simp add: m_def)
    have lD: "length D = nat m" using D m_le m2 by simp
    show ?thesis
    proof (intro conjI allI impI)
      show "length T = length D" using D T len m_le m2 by simp
    next
      fix i assume "i + 1 < length D"
      then show "i < length X" using D by simp
    next
      fix i assume "i + 1 < length D"
      then show "D ! i = X ! i" using D by simp
    next
      fix r assume r: "1 \<le> r \<and> r < length D"
      then have "int r < m" using lD m2 by linarith
      then show "nat (int r - 1 + k) < length y" using len 3 r by (simp add: m_def; linarith)
    next
      fix r assume r: "1 \<le> r \<and> r < length D"
      then have rm: "int r < m" using lD m2 by linarith
      have idx: "nat (k - 1) + r = nat (int r - 1 + k)" using 3 r by linarith
      have "nat (k - 1) + r < length y" using rm len 3 by (simp add: m_def; linarith)
      then have "T ! r = c (y ! (nat (k - 1) + r))"
        using T off rm m_le len by simp
      with idx 3 show "T ! r = (if k = 1 then y ! nat (int r - 1 + k) else c (y ! nat (int r - 1 + k)))"
        by simp
    qed
  next
    case 4
    with pad show ?thesis by (simp add: pad_x_and_y_def)
  qed
  then show "length T = length D"
    and "\<And>i. i + 1 < length D \<Longrightarrow> i < length X \<and> D ! i = X ! i"
    and "\<And>r. 1 \<le> r \<Longrightarrow> r < length D \<Longrightarrow>
           nat (int r - 1 + k) < length y \<and>
           T ! r = (if k = 1 then y ! nat (int r - 1 + k) else c (y ! nat (int r - 1 + k)))"
    by blast+
qed

lemma default_generator_sample:
  assumes init: "DefaultTimeseriesGenertor_init zero astype data targets k kw = Inr g"
    and len: "length (table_values data) = length (table_values targets)"
    and L: "1 \<le> tg_length g"
    and r: "tg_start_index g \<le> r" "r \<le> tg_end_index g"
  shows "tg_length g \<le> r \<and> r \<le> int (length (table_values data)) \<and>
         nat (r - 1 + k) < length (table_values targets) \<and>
         sample_at g r =
           Inr (aligned_sample (table_values data) (table_values targets)
                  (if k = 1 then (\<lambda>x. x) else astype) k (tg_length g) r)"
proof -
  let ?X = "table_values data" and ?y = "table_values targets"
  from init obtain D T where pad: "pad_x_and_y zero astype ?X ?y k = Inr (D, T)"
    and call: "TimeseriesGenerator_call D T kw = Inr g"
    by (auto simp: DefaultTimeseriesGenertor_init_def split: sum.splits)
  from TimeseriesGenerator_call_init [OF call] obtain L' bs sh where
    "TimeseriesGenerator_init D T L' bs sh = Inr g" by blast
  from TimeseriesGenerator_init_fields [OF this]
  have g: "tg_data g = D" "tg_targets g = T" "tg_start_index g = tg_length g"
    "tg_end_index g = int (length D) - 1" "length D = length T"
    by simp_all
  from r g L have r1: "1 \<le> r" and rL: "tg_length g \<le> r" and rD: "r < int (length D)"
    by linarith+
  then have big: "2 \<le> length D" by linarith
  note al = pad_x_and_y_alignment [OF pad len big]
  have rn: "1 \<le> nat r" "nat r < length D" using r1 rD by linarith+
  from al(3) [OF rn] r1
  have tpos: "nat (r - 1 + k) < length ?y"
    and tval: "T ! nat r = (if k = 1 then ?y ! nat (r - 1 + k) else astype (?y ! nat (r - 1 + k)))"
    by simp_all
  have rX: "r \<le> int (length ?X)"
  proof -
    from rn have "(nat r - 1) + 1 < length D" by linarith
    from al(2) [OF this] have "nat r - 1 < length ?X" by simp
    with r1 show ?thesis by linarith
  qed
  have win: "py_slice D (r - tg_length g) r = map ((!) ?X) [nat (r - tg_length g) ..< nat r]"
  proof -
    have "py_slice D (r - tg_length g) r = map ((!) D) [nat (r - tg_length g) ..< nat r]"
      using rL L rD by (intro py_slice_window) linarith+
    also have "\<dots> = map ((!) ?X) [nat (r - tg_length g) ..< nat r]"
    proof (rule map_cong [OF refl])
      fix i assume "i \<in> set [nat (r - tg_length g) ..< nat r]"
      then have "i + 1 < length D" using rn by simp
      from al(2) [OF this] show "D ! i = ?X ! i" by simp
    qed
    finally show ?thesis .
  qed
  have "py_index T r = Inr (T ! nat r)"
    using r1 rD g(5) by (intro py_index_in) linarith+
  with win tval have "sample_at g r =
           Inr (aligned_sample ?X ?y (if k = 1 then (\<lambda>x. x) else astype) k (tg_length g) r)"
    by (simp add: sample_at_def g aligned_sample_def)
  with rL rX tpos show ?thesis by simp
qed

lemmas call_defs = DefaultTimeseriesGenertor_init_def pad_x_and_y_def pad_sequences_def
  TimeseriesGenerator_call_def TimeseriesGenerator_init_def and_then_def kw_int_def kw_bool_def
  kw_table_def kw_step_def table_values_def py_slice_def py_clip_def window_kwargs_def

lemma ahead3_init:
  "DefaultTimeseriesGenertor_init 0 (\<lambda>x. x) (NdArray [1, 2, 3, 4, 5]) (NdArray [11, 12, 13, 14, 15]) 3
     window_kwargs = Inr ahead3_generator"
  by (simp add: call_defs ahead3_generator_def)

text \<open>
  The example in the docstring of \<open>create_keras_timeseriesgenerator\<close>: 100 rows, a
  lookback of 20, batches of 10 and lookahead 0 give 9 batches, the first of 10 windows
  of 20 rows each.
\<close>

lemma docstring_example:
  "and_then (DefaultTimeseriesGenertor_init z c (NdArray (replicate 100 x)) (NdArray (replicate 100 y)) 0
              (fmap_of_list [(''length'', PInt 20), (''batch_size'', PInt 10)]))
     (\<lambda>gen. and_then (TimeseriesGenerator_len gen) (\<lambda>n.
            and_then (TimeseriesGenerator_getitem randint gen 0) (\<lambda>batch.
            Inr (n, length batch, map (length \<circ> fst) batch)))) =
   Inr (9, 10, [20, 20, 20, 20, 20, 20, 20, 20, 20, 20])"
  by (simp add: call_defs TimeseriesGenerator_len_def TimeseriesGenerator_getitem_def batch_rows_def
      sample_at_def py_index_def upto.simps min_def)

text \<open>
  C4. For input \<open>X\<close> and target \<open>y\<close> of equal length, windowed by the default generator
  with lookahead \<open>k\<close> and a lookback length of at least 1: with \<open>k = 1\<close> the generator
  holds \<open>X\<close> and \<open>y\<close> unchanged; and for every row \<open>r\<close> the generator produces a sample
  at (hence for every sample of every batch), the window is the rows of \<open>X\<close> at the
  positions \<open>r - L\<close> to \<open>r - 1\<close> and the target is the row of \<open>y\<close> at position
  \<open>r - 1 + k\<close>: the position of the window's last row when \<open>k = 0\<close>, and \<open>k\<close> steps
  after it otherwise.
\<close>

theorem lookahead_alignment:
  assumes init: "DefaultTimeseriesGenertor_init zero astype data targets k kw = Inr g"
    and len: "length (table_values data) = length (table_values targets)"
    and L: "1 \<le> tg_length g"
  shows "(k = 1 \<longrightarrow> tg_data g = table_values data \<and> tg_targets g = table_values targets) \<and>
    (\<forall>r. tg_start_index g \<le> r \<and> r \<le> tg_end_index g \<longrightarrow>
       tg_length g \<le> r \<and> r \<le> int (length (table_values data)) \<and>
       nat (r - 1 + k) < length (table_values targets) \<and>
       sample_at g r =
         Inr (aligned_sample (table_values data) (table_values targets)
                (if k = 1 then (\<lambda>x. x) else astype) k (tg_length g) r)) \<and>
    (\<not> tg_shuffle g \<longrightarrow>
       (\<forall>index n. TimeseriesGenerator_len g = Inr n \<and> 0 \<le> index \<and> index < n \<longrightarrow>
          (\<forall>r\<in>set (batch_rows g index). tg_start_index g \<le> r \<and> r \<le> tg_end_index g) \<and>
          TimeseriesGenerator_getitem randint g index =
            Inr (map (aligned_sample (table_values data) (table_values targets)
                        (if k = 1 then (\<lambda>x. x) else astype) k (tg_length g))
                   (batch_rows g index))))"
proof (intro conjI allI impI ballI)
  assume k: "k = 1"
  from init k obtain D T where pad: "pad_x_and_y zero astype (table_values data) (table_values targets) 1 = Inr (D, T)"
    and call: "TimeseriesGenerator_call D T kw = Inr g"
    by (auto simp: DefaultTimeseriesGenertor_init_def split: sum.splits)
  from pad have DT: "D = table_values data" "T = table_values targets"
    by (simp_all add: pad_x_and_y_def)
  from TimeseriesGenerator_call_init [OF call] obtain L' bs sh where
    "TimeseriesGenerator_init D T L' bs sh = Inr g" by blast
  from TimeseriesGenerator_init_fields [OF this] DT
  show "tg_data g = table_values data" and "tg_targets g = table_values targets"
    by simp_all
next
  fix r assume "tg_start_index g \<le> r \<and> r \<le> tg_end_index g"
  then have r: "tg_start_index g \<le> r" "r \<le> tg_end_index g" by simp_all
  from default_generator_sample [OF init len L r]
  show "tg_length g \<le> r" and "r \<le> int (length (table_values data))"
    and "nat (r - 1 + k) < length (table_values targets)"
    and "sample_at g r =
         Inr (aligned_sample (table_values data) (table_values targets)
                (if k = 1 then (\<lambda>x. x) else astype) k (tg_length g) r)"
    by simp_all
next
  fix index n r
  assume "TimeseriesGenerator_len g = Inr n \<and> 0 \<le> index \<and> index < n"
    and "r \<in> set (batch_rows g index)"
  then have "tg_start_index g \<le> r \<and> r \<le> tg_end_index g"
    using batch_rows_in_range [of g n index r] by simp
  then show "tg_start_index g \<le> r" and "r \<le> tg_end_index g" by simp_all
next
  fix index n
  assume sh: "\<not> tg_shuffle g"
    and n: "TimeseriesGenerator_len g = Inr n \<and> 0 \<le> index \<and> index < n"
  have "collect (map (sample_at g) (batch_rows g index)) =
        Inr (map (aligned_sample (table_values data) (table_values targets)
                        (if k = 1 then (\<lambda>x. x) else astype) k (tg_length g))
                   (batch_rows g index))"
  proof (rule collect_map_Inr)
    fix r assume "r \<in> set (batch_rows g index)"
    with n have "tg_start_index g \<le> r \<and> r \<le> tg_end_index g"
      using batch_rows_in_range [of g n index r] by simp
    then have r: "tg_start_index g \<le> r" "r \<le> tg_end_index g" by simp_all
    from default_generator_sample [OF init len L r]
    show "sample_at g r =
         Inr (aligned_sample (table_values data) (table_values targets)
                (if k = 1 then (\<lambda>x. x) else astype) k (tg_length g) r)"
      by simp
  qed
  with sh show "TimeseriesGenerator_getitem randint g index =
            Inr (map (aligned_sample (table_values data) (table_values targets)
                        (if k = 1 then (\<lambda>x. x) else astype) k (tg_length g))
                   (batch_rows g index))"
    by (simp add: TimeseriesGenerator_getitem_def)
qed

theorem lookahead_alignment_witness:
  "DefaultTimeseriesGenertor_init 0 (\<lambda>x. x) (NdArray [1, 2, 3, 4, 5]) (NdArray [11, 12, 13, 14, 15]) 3
     window_kwargs = Inr ahead3_generator \<and>
   length (table_values (NdArray [1, 2, 3, 4, 5 :: int])) =
     length (table_values (NdArray [11, 12, 13, 14, 15 :: int])) \<and>
   1 \<le> tg_length ahead3_generator \<and>
   \<not> tg_shuffle ahead3_generator \<and>
   TimeseriesGenerator_len ahead3_generator = Inr 1 \<and>
   sample_at ahead3_generator 2 = Inr ([1, 2], 15) \<and>
   TimeseriesGenerator_getitem no_random ahead3_generator 0 = Inr [([1, 2], 15)]"
proof -
  have len: "length (table_values (NdArray [1, 2, 3, 4, 5 :: int])) =
     length (table_values (NdArray [11, 12, 13, 14, 15 :: int]))"
    by (simp add: table_values_def)
  have L: "1 \<le> tg_length ahead3_generator" by (simp add: ahead3_generator_def)
  have sh: "\<not> tg_shuffle ahead3_generator" by (simp add: ahead3_generator_def)
  have n: "TimeseriesGenerator_len ahead3_generator = Inr 1"
    by (simp add: TimeseriesGenerator_len_def ahead3_generator_def)
  have rows: "batch_rows ahead3_generator 0 = [2]"
    by (simp add: batch_rows_def ahead3_generator_def)
  have al: "aligned_sample (table_values (NdArray [1, 2, 3, 4, 5 :: int]))
        (table_values (NdArray [11, 12, 13, 14, 15])) (\<lambda>x. x) 3 2 2 = ([1, 2], 15)"
    by (simp add: aligned_sample_def table_values_def upt_rec)
  note th = lookahead_alignment [where randint = no_random, OF ahead3_init len L]
  from th have "tg_start_index ahead3_generator \<le> 2 \<and> 2 \<le> tg_end_index ahead3_generator \<longrightarrow>
      sample_at ahead3_generator 2 =
         Inr (aligned_sample (table_values (NdArray [1, 2, 3, 4, 5 :: int]))
        (table_values (NdArray [11, 12, 13, 14, 15])) (if (3 :: int) = 1 then (\<lambda>x. x) else (\<lambda>x. x)) 3
        (tg_length ahead3_generator) 2)"
    by blast
  then have s: "sample_at ahead3_generator 2 = Inr ([1, 2], 15)"
    by (simp add: ahead3_generator_def al)
  from th sh n have "TimeseriesGenerator_getitem no_random ahead3_generator 0 =
      Inr (map (aligned_sample (table_values (NdArray [1, 2, 3, 4, 5 :: int]))
        (table_values (NdArray [11, 12, 13, 14, 15])) (if (3 :: int) = 1 then (\<lambda>x. x) else (\<lambda>x. x)) 3
        (tg_length ahead3_generator)) (batch_rows ahead3_generator 0))"
    by simp
  then have b: "TimeseriesGenerator_getitem no_random ahead3_generator 0 = Inr [([1, 2], 15)]"
    by (simp only: rows) (simp add: ahead3_generator_def al)
  from ahead3_init len L sh n s b show ?thesis by blast
qed

subsection \<open>The registry\<close>

lemmas registry_defs = create_keras_timeseriesgenerator_def create_from_config_def
  timeseries_generators_def GordoTimeseriesGenerator_call_def DefaultTimeseriesGenertor_call_def
  gordo_config_def shared_kwargs_def

text \<open>
  C9. \<open>create_from_config\<close>: without a configuration it calls the default type with
  exactly the shared keyword arguments; a configuration without \<open>type\<close>, or with a type
  that is not registered, raises \<open>ValueError\<close>; otherwise it calls the registered class
  with the configuration's entries other than \<open>type\<close> merged with the shared keyword
  arguments, where a shared keyword argument wins over a configuration entry of the
  same name.
\<close>

theorem create_from_config_resolves:
  "create_from_config self None kwargs = default_type self kwargs \<and>
   (fmlookup cfg ''type'' = None \<longrightarrow>
      (\<exists>m. create_from_config self (Some cfg) kwargs = Inl (ValueError m))) \<and>
   (\<forall>t. fmlookup cfg ''type'' = Some t \<and> fmlookup (reg_types self) t = None \<longrightarrow>
      (\<exists>m. create_from_config self (Some cfg) kwargs = Inl (ValueError m))) \<and>
   (\<forall>t cls. fmlookup cfg ''type'' = Some t \<and> fmlookup (reg_types self) t = Some cls \<longrightarrow>
      create_from_config self (Some cfg) kwargs = cls (fmdrop ''type'' cfg ++\<^sub>f kwargs) \<and>
      (\<forall>k. fmlookup (fmdrop ''type'' cfg ++\<^sub>f kwargs) k =
            (case fmlookup kwargs k of
               Some v \<Rightarrow> Some v
             | None \<Rightarrow> if k = ''type'' then None else fmlookup cfg k)))"
  by (auto simp: create_from_config_def Let_def fmlookup_dom_iff split: option.splits)

theorem create_from_config_resolves_witness:
  "fmlookup gordo_config ''type'' = Some (PStr ''GordoTimeseriesGenerator'') \<and>
   fmlookup (reg_types (timeseries_generators (0 :: int) (\<lambda>x. x) pandas_sorted))
     (PStr ''GordoTimeseriesGenerator'') = Some (GordoTimeseriesGenerator_call pandas_sorted) \<and>
   create_from_config (timeseries_generators 0 (\<lambda>x. x) pandas_sorted) (Some gordo_config) shared_kwargs =
     GordoTimeseriesGenerator_call pandas_sorted (fmdrop ''type'' gordo_config ++\<^sub>f shared_kwargs) \<and>
   fmlookup (fmdrop ''type'' gordo_config ++\<^sub>f shared_kwargs) ''batch_size'' = Some (PInt 2) \<and>
   fmlookup (fmdrop ''type'' gordo_config ++\<^sub>f shared_kwargs) ''step'' = Some (PTimedelta 10) \<and>
   fmlookup (fmdrop ''type'' gordo_config ++\<^sub>f shared_kwargs) ''type'' = None \<and>
   create_from_config (timeseries_generators 0 (\<lambda>x. x) pandas_sorted) None shared_kwargs =
     DefaultTimeseriesGenertor_call 0 (\<lambda>x. x) shared_kwargs \<and>
   fmlookup (fmdrop ''type'' gordo_config) ''type'' = None \<and>
   (\<exists>m. create_from_config (timeseries_generators 0 (\<lambda>x. x) pandas_sorted)
          (Some (fmdrop ''type'' gordo_config)) shared_kwargs = Inl (ValueError m)) \<and>
   fmlookup (fmupd ''type'' (PStr ''Gordo'') gordo_config) ''type'' = Some (PStr ''Gordo'') \<and>
   fmlookup (reg_types (timeseries_generators (0 :: int) (\<lambda>x. x) pandas_sorted)) (PStr ''Gordo'') = None \<and>
   (\<exists>m. create_from_config (timeseries_generators 0 (\<lambda>x. x) pandas_sorted)
          (Some (fmupd ''type'' (PStr ''Gordo'') gordo_config)) shared_kwargs = Inl (ValueError m))"
proof -
  let ?R = "timeseries_generators (0 :: int) (\<lambda>x. x) pandas_sorted"
  have t: "fmlookup gordo_config ''type'' = Some (PStr ''GordoTimeseriesGenerator'')"
    by (simp add: gordo_config_def)
  have c: "fmlookup (reg_types ?R) (PStr ''GordoTimeseriesGenerator'') =
     Some (GordoTimeseriesGenerator_call pandas_sorted)"
    by (simp add: timeseries_generators_def)
  have d: "default_type ?R = DefaultTimeseriesGenertor_call 0 (\<lambda>x. x)"
    by (simp add: timeseries_generators_def)
  have n: "fmlookup (fmdrop ''type'' gordo_config) ''type'' = None" by simp
  have u: "fmlookup (fmupd ''type'' (PStr ''Gordo'') gordo_config) ''type'' = Some (PStr ''Gordo'')"
    by simp
  have r: "fmlookup (reg_types ?R) (PStr ''Gordo'') = None"
    by (simp add: timeseries_generators_def)
  have kb: "fmlookup shared_kwargs ''batch_size'' = Some (PInt 2)"
    and ks: "fmlookup shared_kwargs ''step'' = None"
    and kt: "fmlookup shared_kwargs ''type'' = None"
    and cs: "fmlookup gordo_config ''step'' = Some (PTimedelta 10)"
    by (simp_all add: shared_kwargs_def gordo_config_def)
  note th1 = create_from_config_resolves [of ?R shared_kwargs gordo_config]
  note th2 = create_from_config_resolves [of ?R shared_kwargs "fmdrop ''type'' gordo_config"]
  note th3 = create_from_config_resolves [of ?R shared_kwargs "fmupd ''type'' (PStr ''Gordo'') gordo_config"]
  from th1 t c have m: "create_from_config ?R (Some gordo_config) shared_kwargs =
     GordoTimeseriesGenerator_call pandas_sorted (fmdrop ''type'' gordo_config ++\<^sub>f shared_kwargs)"
    and l: "\<forall>k. fmlookup (fmdrop ''type'' gordo_config ++\<^sub>f shared_kwargs) k =
            (case fmlookup shared_kwargs k of
               Some v \<Rightarrow> Some v
             | None \<Rightarrow> if k = ''type'' then None else fmlookup gordo_config k)"
    by blast+
  from l kb have l1: "fmlookup (fmdrop ''type'' gordo_config ++\<^sub>f shared_kwargs) ''batch_size'' = Some (PInt 2)"
    by simp
  from l ks cs have l2: "fmlookup (fmdrop ''type'' gordo_config ++\<^sub>f shared_kwargs) ''step'' = Some (PTimedelta 10)"
    by simp
  from l kt have l3: "fmlookup (fmdrop ''type'' gordo_config ++\<^sub>f shared_kwargs) ''type'' = None"
    by simp
  from th1 d have dflt: "create_from_config ?R None shared_kwargs = DefaultTimeseriesGenertor_call 0 (\<lambda>x. x) shared_kwargs"
    by simp
  from th2 n have e1: "\<exists>m. create_from_config ?R (Some (fmdrop ''type'' gordo_config)) shared_kwargs =
      Inl (ValueError m)"
    by blast
  from th3 u r have e2: "\<exists>m. create_from_config ?R (Some (fmupd ''type'' (PStr ''Gordo'') gordo_config))
      shared_kwargs = Inl (ValueError m)"
    by blast
  show ?thesis
    by (intro conjI) (rule t c m l1 l2 l3 dflt n e1 u r e2)+
qed

subsection \<open>Negative lookahead\<close>

text \<open>The default type rejects a negative lookahead in \<open>pad_x_and_y\<close>, before any windowing.\<close>

lemma default_rejects_negative:
  "k < 0 \<Longrightarrow> DefaultTimeseriesGenertor_init zero astype data targets k kw =
     Inl (ValueError ''Value of lookahead can not be negative'')"
  by (simp add: DefaultTimeseriesGenertor_init_def pad_x_and_y_def)

text \<open>
  C8. The claim: a negative lookahead is rejected whichever generator type is
  configured. The code with the type GordoTimeseriesGenerator and lookahead -1 on the
  frame with one gap: the generator is built and stores the lookahead -1.
\<close>

theorem negative_lookahead_accepted:
  "create_keras_timeseriesgenerator 0 (\<lambda>x. x) pandas_sorted (DataFrame gapped_frame) (DataFrame gapped_frame)
     2 2 (- 1) (Some gordo_config) =
   Inr (GordoGen (gapped_generator \<lparr> lookahead := - 1 \<rparr>))"
  by (simp add: registry_defs and_then_def kw_table_def kw_int_def kw_bool_def kw_step_def eval_defs
      gapped_generator_def gapped_chunks_def)

subsection \<open>The size check of fit\<close>

text \<open>For an array with no more rows than the lookback window, \<open>fit\<close> raises before any windowing.\<close>

lemma fit_array_validated:
  assumes "int (length (case X of Arr1 xs \<Rightarrow> map (\<lambda>x. [x]) xs | Arr2 rows \<Rightarrow> rows)) \<le> est_lookback_window self"
  shows "fit_primer zero astype pd randint self (InArray X) y =
     Inl (ValueError ''For KerasLSTMForecast lookback_window must be < size of X'')"
  using assms by (simp add: fit_primer_def validate_and_fix_size_of_X_def and_then_def Let_def)

text \<open>
  C7. The claim: \<open>fit\<close> rejects every input with no more rows than the lookback
  window, a DataFrame included. The code on a DataFrame of two rows, with a lookback
  window of 2 and lookahead 0 (KerasLSTMAutoEncoder): the size check is skipped, the
  primer generator is built and \<open>fit\<close> obtains a primer batch, which it passes on to
  the fit of the base class.
\<close>

theorem fit_dataframe_not_validated:
  "int (length [(0, [1]), (10, [2 :: int])]) \<le> est_lookback_window autoencoder \<and>
   fit_primer [0] (\<lambda>x. x) pandas_sorted no_random autoencoder
     (InFrame [(0, [1]), (10, [2])]) (DataFrame [(0, [1]), (10, [2])]) =
   Inr [([[1], [2]], [2])]"
  by (simp add: fit_primer_def autoencoder_def table_head_def registry_defs call_defs
      generator_getitem_def getitem_defs insert_Diff_if)

end
